theory Spec2Isabelle
  imports Main
begin

section \<open>The product service of \<^verbatim>\<open>api/v1/services/products.go\<close>\<close>

text \<open>
  The five service functions of \<^verbatim>\<open>products.go\<close> are embedded as HOL functions. A Go
  result pair \<^verbatim>\<open>(value, *ServiceError)\<close> is a sum, \<open>Inl\<close> carrying the service error.
  The storage executor \<^verbatim>\<open>dbTrx\<close> is a record of the five storage calls the services
  issue, over an arbitrary type \<open>'db\<close> of persisted states; the persisted state is passed
  in and, by the operations that write, returned. The \<^verbatim>\<open>context.Context\<close> argument is only
  forwarded to the storage calls, where a cancellation surfaces as a failing call; it has
  no parameter of its own.
\<close>

subsection \<open>Data\<close>

text \<open>
  A Go \<^verbatim>\<open>error\<close> value. \<^verbatim>\<open>sql.ErrNoRows\<close> is the one error the services compare against
  (by identity); every other error is an error carrying a text, as \<^verbatim>\<open>errors.New\<close> makes.
\<close>

datatype go_error = ErrNoRows | ErrorsNew string

text \<open>\<^verbatim>\<open>null.String{String, Valid}\<close>: a nullable text column; \<open>Valid = False\<close> is SQL NULL.\<close>

record null_String =
  String :: string
  Valid :: bool

text \<open>
  An arbitrary-precision decimal, coefficient and power of ten: it stands for
  \<open>value * 10 ^ exp\<close>. Both \<^verbatim>\<open>decimal.Decimal\<close> and \<^verbatim>\<open>types.Decimal\<close> are of this kind.
\<close>

record Decimal =
  "value" :: int
  exp :: int

text \<open>\<^verbatim>\<open>M.Product\<close>, the persisted entity (columns \<^verbatim>\<open>id\<close>, \<^verbatim>\<open>name\<close>, \<^verbatim>\<open>description\<close>, \<^verbatim>\<open>price\<close>).\<close>

record Product =
  ID :: int
  Name :: string
  Description :: null_String
  Price :: Decimal

text \<open>
  \<^verbatim>\<open>ProductBody\<close>, the input payload. \<^verbatim>\<open>Price\<close> is a Go \<^verbatim>\<open>int\<close>; the services only
  compare it with 0 and print it, so no arithmetic on it can overflow, and it is an
  \<open>int\<close> here, which covers the 32-bit and the 64-bit \<^verbatim>\<open>int\<close> alike.
\<close>

record ProductBody =
  Name :: string
  Description :: string
  Price :: int

text \<open>\<^verbatim>\<open>T.ServiceError\<close>: the message for the caller, the underlying cause, the status code.\<close>

record ServiceError =
  Message :: string
  Error :: go_error
  Code :: nat

definition StatusBadRequest :: nat where
  "StatusBadRequest = 400"

definition StatusNotFound :: nat where
  "StatusNotFound = 404"

definition StatusInternalServerError :: nat where
  "StatusInternalServerError = 500"

subsection \<open>The storage executor\<close>

text \<open>
  Modelled from the spec: the generated persistence layer (package \<^verbatim>\<open>models\<close>) is not
  among the sources, so the five calls the services make on it are the fields of a
  record, one executor being one behaviour of the storage. The two queries
  (\<^verbatim>\<open>M.Products().All\<close>, \<^verbatim>\<open>M.FindProduct\<close>) read the persisted state and return a result or
  an error; a query does not change the persisted state. The three writes return their
  outcome together with the persisted state they leave, on success and on failure:
  \<^verbatim>\<open>product.Insert\<close> yields the identifier that storage assigned, \<^verbatim>\<open>product.Update\<close> and
  \<^verbatim>\<open>product.Delete\<close> the number of rows affected.
\<close>

record 'db executor =
  ProductsAll :: "'db \<Rightarrow> go_error + Product list"
  FindProduct :: "'db \<Rightarrow> int \<Rightarrow> go_error + Product"
  ProductInsert :: "'db \<Rightarrow> Product \<Rightarrow> (go_error + int) \<times> 'db"
  ProductUpdate :: "'db \<Rightarrow> Product \<Rightarrow> (go_error + int) \<times> 'db"
  ProductDelete :: "'db \<Rightarrow> Product \<Rightarrow> (go_error + int) \<times> 'db"

subsection \<open>The two read operations\<close>

definition GetProducts :: "'db executor \<Rightarrow> 'db \<Rightarrow> ServiceError + Product list" where
  "GetProducts dbTrx db =
     (case ProductsAll dbTrx db of
        Inl err \<Rightarrow>
          Inl \<lparr>Message = ''Unable to get products'', Error = err,
               Code = StatusInternalServerError\<rparr>
      | Inr products \<Rightarrow> Inr products)"

definition GetProduct :: "'db executor \<Rightarrow> 'db \<Rightarrow> int \<Rightarrow> ServiceError + Product" where
  "GetProduct dbTrx db id' =
     (case FindProduct dbTrx db id' of
        Inl err \<Rightarrow>
          (if err = ErrNoRows
           then Inl \<lparr>Message = ''Product not found'', Error = err, Code = StatusNotFound\<rparr>
           else Inl \<lparr>Message = ''Unable to get product'', Error = err,
                     Code = StatusInternalServerError\<rparr>)
      | Inr product \<Rightarrow> Inr product)"

subsection \<open>Printing and parsing numbers\<close>

text \<open>
  The write operations turn the price into a decimal in three library calls:
  \<^verbatim>\<open>decimal.NewFromString(strconv.Itoa(body.Price))\<close>, then \<^verbatim>\<open>dec.String()\<close>, then
  \<^verbatim>\<open>price.Scan\<close> of that string. The three libraries (Go's \<^verbatim>\<open>strconv\<close>,
  \<^verbatim>\<open>shopspring/decimal\<close> and \<^verbatim>\<open>sqlboiler/types\<close>) are dependencies of the repository
  and not among its sources. The spec says of the calls that the integer price becomes
  an exact decimal, with no rounding and no floating-point intermediate, that the first
  conversion fails on a malformed numeric literal and the second on a failure to
  construct the decimal. They are modelled here as exact printers and parsers of
  decimal literals, after the documented behaviour of the libraries.
\<close>

text \<open>Modelled from the spec: a decimal digit as a character, and back.\<close>

definition digit_char :: "nat \<Rightarrow> char" where
  "digit_char d = ''0123456789'' ! d"

definition digit_val :: "char \<Rightarrow> nat option" where
  "digit_val c =
     map_of [(CHR ''0'', 0), (CHR ''1'', 1), (CHR ''2'', 2), (CHR ''3'', 3), (CHR ''4'', 4),
             (CHR ''5'', 5), (CHR ''6'', 6), (CHR ''7'', 7), (CHR ''8'', 8), (CHR ''9'', 9)] c"

text \<open>
  Modelled from the spec: the base-10 digits of an unsigned number, most significant
  first (what \<^verbatim>\<open>strconv\<close> prints for it).
\<close>

function FormatUint :: "nat \<Rightarrow> string" where
  "FormatUint n =
     (if n < 10 then [digit_char n] else FormatUint (n div 10) @ [digit_char (n mod 10)])"
  by pat_completeness auto
termination
  by (relation "measure (\<lambda>n. n)") auto

declare FormatUint.simps [simp del]

text \<open>
  Modelled from the spec: \<^verbatim>\<open>strconv.Itoa\<close>, the base-10 text of an integer, with a
  leading \<^verbatim>\<open>-\<close> for a negative one.
\<close>

definition Itoa :: "int \<Rightarrow> string" where
  "Itoa i = (if i < 0 then CHR ''-'' # FormatUint (nat (- i)) else FormatUint (nat i))"

text \<open>
  Modelled from the spec: the number a string of decimal digits denotes; \<open>None\<close> at the
  first character that is no digit.
\<close>

fun digits_value :: "nat \<Rightarrow> string \<Rightarrow> nat option" where
  "digits_value acc [] = Some acc"
| "digits_value acc (c # cs) =
     (case digit_val c of None \<Rightarrow> None | Some d \<Rightarrow> digits_value (acc * 10 + d) cs)"

text \<open>
  Modelled from the spec: an integer literal in base 10, an optional sign and at least
  one digit (the literals \<^verbatim>\<open>strconv.ParseInt\<close> and \<^verbatim>\<open>big.Int.SetString\<close> accept in base
  10, range apart).
\<close>

definition parse_integer :: "string \<Rightarrow> int option" where
  "parse_integer s =
     (case s of
        [] \<Rightarrow> None
      | c # cs \<Rightarrow>
          if c = CHR ''-'' then
            (if cs = [] then None else map_option (\<lambda>n. - int n) (digits_value 0 cs))
          else if c = CHR ''+'' then
            (if cs = [] then None else map_option int (digits_value 0 cs))
          else map_option int (digits_value 0 s))"

definition in_int32 :: "int \<Rightarrow> bool" where
  "in_int32 x = (- (2 ^ 31) \<le> x \<and> x < 2 ^ 31)"

definition is_exp_mark :: "char \<Rightarrow> bool" where
  "is_exp_mark c = (c = CHR ''E'' \<or> c = CHR ''e'')"

definition is_point :: "char \<Rightarrow> bool" where
  "is_point c = (c = CHR ''.'')"

text \<open>
  Modelled from the spec: \<^verbatim>\<open>decimal.NewFromString\<close>, which fails on a malformed numeric
  literal. The text after the first \<^verbatim>\<open>E\<close> or \<^verbatim>\<open>e\<close> is the exponent, a 32-bit integer
  literal; the text before it has at most one point; with the point taken out it is
  an integer literal, the coefficient; each digit after the point lowers the exponent
  by one, and the exponent stays a 32-bit integer.
\<close>

definition NewFromString :: "string \<Rightarrow> go_error + Decimal" where
  "NewFromString s =
     (let mant = takeWhile (\<lambda>c. \<not> is_exp_mark c) s;
          rest = dropWhile (\<lambda>c. \<not> is_exp_mark c) s;
          expo = (if rest = [] then Some 0 else parse_integer (tl rest))
      in case expo of
           None \<Rightarrow>
             Inl (ErrorsNew (''can't convert '' @ s @ '' to decimal: exponent is not numeric''))
         | Some e \<Rightarrow>
             if \<not> in_int32 e then
               Inl (ErrorsNew
                     (''can't convert '' @ s @ '' to decimal: fractional part too long''))
             else if 1 < length (filter is_point mant) then
               Inl (ErrorsNew (''can't convert '' @ mant @ '' to decimal: too many .s''))
             else
               (let intString = filter (\<lambda>c. \<not> is_point c) mant;
                    frac = tl (dropWhile (\<lambda>c. \<not> is_point c) mant);
                    e' = e - int (length frac)
                in case parse_integer intString of
                     None \<Rightarrow> Inl (ErrorsNew (''can't convert '' @ mant @ '' to decimal''))
                   | Some v \<Rightarrow>
                       if \<not> in_int32 e' then
                         Inl (ErrorsNew
                               (''can't convert '' @ s @
                                '' to decimal: fractional part too long''))
                       else Inr \<lparr>value = v, exp = e'\<rparr>))"

text \<open>
  Modelled from the spec: \<^verbatim>\<open>Decimal.String\<close>. With a non-negative exponent it prints
  the integer \<open>value * 10 ^ exp\<close>; with a negative one the digits of the coefficient
  with a point \<open>- exp\<close> places from the right, zeros filled in on the left, trailing
  zeros of the fraction dropped, and the sign in front.
\<close>

definition Decimal_String :: "Decimal \<Rightarrow> string" where
  "Decimal_String d =
     (if 0 \<le> exp d then Itoa (value d * 10 ^ nat (exp d))
      else
        (let str = FormatUint (nat \<bar>value d\<bar>);
             k = nat (- exp d);
             intPart = (if k < length str then take (length str - k) str else ''0'');
             fractionalPart =
               (if k < length str then drop (length str - k) str
                else replicate (k - length str) CHR ''0'' @ str);
             trimmed = rev (dropWhile (\<lambda>c. c = CHR ''0'') (rev fractionalPart));
             number = (if trimmed = [] then intPart else intPart @ ''.'' @ trimmed)
         in if value d < 0 then CHR ''-'' # number else number))"

text \<open>
  Modelled from the spec: \<^verbatim>\<open>types.Decimal.Scan\<close> of a string, which fails when the
  decimal cannot be constructed. It yields the decimal the literal denotes, or an
  error when the text is no decimal literal.
\<close>

definition Scan :: "string \<Rightarrow> go_error + Decimal" where
  "Scan s =
     (case NewFromString s of
        Inl err \<Rightarrow> Inl (ErrorsNew (''invalid decimal syntax: '' @ s))
      | Inr d \<Rightarrow> Inr d)"

subsection \<open>The three write operations\<close>

definition CreateProduct ::
  "'db executor \<Rightarrow> 'db \<Rightarrow> ProductBody \<Rightarrow> (ServiceError + Product) \<times> 'db" where
  "CreateProduct dbTrx db body =
     (if ProductBody.Price body < 0 then
        (Inl \<lparr>Message = ''Price cannot be negative'', Error = ErrorsNew ''invalid price'',
               Code = StatusBadRequest\<rparr>, db)
      else
        case NewFromString (Itoa (ProductBody.Price body)) of
          Inl err \<Rightarrow>
            (Inl \<lparr>Message = ''Invalid price format'', Error = err,
                   Code = StatusBadRequest\<rparr>, db)
        | Inr dec \<Rightarrow>
            (case Scan (Decimal_String dec) of
               Inl err \<Rightarrow>
                 (Inl \<lparr>Message = ''Failed to convert price to decimal'', Error = err,
                        Code = StatusInternalServerError\<rparr>, db)
             | Inr price \<Rightarrow>
                 (let product =
                        \<lparr>ID = 0, Product.Name = ProductBody.Name body,
                         Product.Description =
                           \<lparr>String = ProductBody.Description body,
                            Valid = (ProductBody.Description body \<noteq> [])\<rparr>,
                         Product.Price = price\<rparr>
                  in case ProductInsert dbTrx db product of
                       (Inl err, db') \<Rightarrow>
                         (Inl \<lparr>Message = ''Unable to create product'', Error = err,
                                Code = StatusInternalServerError\<rparr>, db')
                     | (Inr new_id, db') \<Rightarrow> (Inr (product\<lparr>ID := new_id\<rparr>), db'))))"

definition UpdateProduct ::
  "'db executor \<Rightarrow> 'db \<Rightarrow> int \<Rightarrow> ProductBody \<Rightarrow> (ServiceError + Product) \<times> 'db" where
  "UpdateProduct dbTrx db id' body =
     (case FindProduct dbTrx db id' of
        Inl err \<Rightarrow>
          (if err = ErrNoRows
           then (Inl \<lparr>Message = ''Product not found'', Error = err,
                       Code = StatusNotFound\<rparr>, db)
           else (Inl \<lparr>Message = ''Unable to get product'', Error = err,
                       Code = StatusInternalServerError\<rparr>, db))
      | Inr found \<Rightarrow>
          (if ProductBody.Price body < 0 then
            (Inl \<lparr>Message = ''Price cannot be negative'', Error = ErrorsNew ''invalid price'',
                   Code = StatusBadRequest\<rparr>, db)
          else
            case NewFromString (Itoa (ProductBody.Price body)) of
              Inl err \<Rightarrow>
                (Inl \<lparr>Message = ''Invalid price format'', Error = err,
                       Code = StatusBadRequest\<rparr>, db)
            | Inr dec \<Rightarrow>
                (case Scan (Decimal_String dec) of
                   Inl err \<Rightarrow>
                     (Inl \<lparr>Message = ''Failed to convert price to decimal'', Error = err,
                            Code = StatusInternalServerError\<rparr>, db)
                 | Inr price \<Rightarrow>
                     (let product =
                            found\<lparr>Product.Name := ProductBody.Name body,
                                  Product.Description :=
                                    \<lparr>String = ProductBody.Description body,
                                     Valid = (ProductBody.Description body \<noteq> [])\<rparr>,
                                  Product.Price := price\<rparr>
                      in case ProductUpdate dbTrx db product of
                           (Inl err, db') \<Rightarrow>
                             (Inl \<lparr>Message = ''Unable to update product'', Error = err,
                                    Code = StatusInternalServerError\<rparr>, db')
                         | (Inr rowsAff, db') \<Rightarrow> (Inr product, db')))))"

definition DeleteProduct :: "'db executor \<Rightarrow> 'db \<Rightarrow> int \<Rightarrow> ServiceError option \<times> 'db" where
  "DeleteProduct dbTrx db id' =
     (case FindProduct dbTrx db id' of
        Inl err \<Rightarrow>
          (if err = ErrNoRows
           then (Some \<lparr>Message = ''Product not found'', Error = err,
                        Code = StatusNotFound\<rparr>, db)
           else (Some \<lparr>Message = ''Unable to get product'', Error = err,
                        Code = StatusInternalServerError\<rparr>, db))
      | Inr product \<Rightarrow>
          (case ProductDelete dbTrx db product of
             (Inl err, db') \<Rightarrow>
               (Some \<lparr>Message = ''Unable to delete product'', Error = err,
                      Code = StatusInternalServerError\<rparr>, db')
           | (Inr rowsAff, db') \<Rightarrow> (None, db')))"

subsection \<open>A table as storage\<close>

text \<open>
  Modelled from the spec: the storage behind the executor (the generated package
  \<^verbatim>\<open>models\<close> and the database) is not among the sources. The spec describes it as a
  single table of products with primary key \<^verbatim>\<open>id\<close>, which storage assigns on
  insertion, and as a storage that may be unavailable. A table is its rows in
  insertion order, the next identifier to assign, and, while the storage is
  unavailable, the error every call on it returns.
\<close>

record table =
  rows :: "Product list"
  next_id :: int
  unavailable :: "go_error option"

text \<open>Modelled from the spec: list-all, the rows in the order of the table.\<close>

definition table_All :: "table \<Rightarrow> go_error + Product list" where
  "table_All t = (case unavailable t of Some e \<Rightarrow> Inl e | None \<Rightarrow> Inr (rows t))"

text \<open>
  Modelled from the spec: find-by-id, the row with the identifier, or \<^verbatim>\<open>sql.ErrNoRows\<close>
  when no row matches.
\<close>

definition table_Find :: "table \<Rightarrow> int \<Rightarrow> go_error + Product" where
  "table_Find t i =
     (case unavailable t of
        Some e \<Rightarrow> Inl e
      | None \<Rightarrow>
          (case find (\<lambda>p. ID p = i) (rows t) of
             None \<Rightarrow> Inl ErrNoRows
           | Some p \<Rightarrow> Inr p))"

text \<open>
  Modelled from the spec: insert, where storage assigns the identifier of the new row
  and returns it.
\<close>

definition table_Insert :: "table \<Rightarrow> Product \<Rightarrow> (go_error + int) \<times> table" where
  "table_Insert t p =
     (case unavailable t of
        Some e \<Rightarrow> (Inl e, t)
      | None \<Rightarrow>
          (Inr (next_id t),
           t\<lparr>rows := rows t @ [p\<lparr>ID := next_id t\<rparr>], next_id := next_id t + 1\<rparr>))"

text \<open>
  Modelled from the spec: update by primary key; the row with the product's identifier
  takes all the fields of the product, and the number of rows affected is returned.
\<close>

definition table_Update :: "table \<Rightarrow> Product \<Rightarrow> (go_error + int) \<times> table" where
  "table_Update t p =
     (case unavailable t of
        Some e \<Rightarrow> (Inl e, t)
      | None \<Rightarrow>
          (Inr (int (length (filter (\<lambda>q. ID q = ID p) (rows t)))),
           t\<lparr>rows := map (\<lambda>q. if ID q = ID p then p else q) (rows t)\<rparr>))"

text \<open>
  Modelled from the spec: delete by primary key; the row with the product's identifier
  is removed for good, and the number of rows affected is returned.
\<close>

definition table_Delete :: "table \<Rightarrow> Product \<Rightarrow> (go_error + int) \<times> table" where
  "table_Delete t p =
     (case unavailable t of
        Some e \<Rightarrow> (Inl e, t)
      | None \<Rightarrow>
          (Inr (int (length (filter (\<lambda>q. ID q = ID p) (rows t)))),
           t\<lparr>rows := filter (\<lambda>q. ID q \<noteq> ID p) (rows t)\<rparr>))"

text \<open>Modelled from the spec: the executor whose storage is a table.\<close>

definition table_executor :: "table executor" where
  "table_executor =
     \<lparr>ProductsAll = table_All, FindProduct = table_Find, ProductInsert = table_Insert,
      ProductUpdate = table_Update, ProductDelete = table_Delete\<rparr>"

text \<open>The table before anything is created; the first identifier is 1.\<close>

definition empty_table :: table where
  "empty_table = \<lparr>rows = [], next_id = 1, unavailable = None\<rparr>"

text \<open>
  Two tables to run the services on: the table after the spec's example
  \<^verbatim>\<open>Create({name:"Widget", description:"", price:10})\<close> on the empty table, and an
  empty table whose storage is unavailable.
\<close>

definition widget_table :: table where
  "widget_table =
     \<lparr>rows = [\<lparr>ID = 1, Product.Name = ''Widget'',
               Product.Description = \<lparr>String = [], Valid = False\<rparr>,
               Product.Price = \<lparr>value = 10, exp = 0\<rparr>\<rparr>],
      next_id = 2, unavailable = None\<rparr>"

definition unavailable_table :: table where
  "unavailable_table =
     \<lparr>rows = [], next_id = 1, unavailable = Some (ErrorsNew ''connection refused'')\<rparr>"

text \<open>
  Modelled from the spec: a table storage that refuses every delete; the call fails
  and leaves the table.
\<close>

definition delete_refused :: "table executor" where
  "delete_refused =
     \<lparr>ProductsAll = table_All, FindProduct = table_Find, ProductInsert = table_Insert,
      ProductUpdate = table_Update,
      ProductDelete = (\<lambda>t p. (Inl (ErrorsNew ''permission denied''), t))\<rparr>"


subsection \<open>Notions the properties are stated with\<close>

text \<open>
  The integer a decimal stands for, when it stands for one: what converting a price
  back to an integer gives.
\<close>

definition Decimal_to_int :: "Decimal \<Rightarrow> int option" where
  "Decimal_to_int d =
     (if 0 \<le> exp d then Some (value d * 10 ^ nat (exp d))
      else if value d mod 10 ^ nat (- exp d) = 0 then Some (value d div 10 ^ nat (- exp d))
      else None)"

text \<open>
  An executor that also keeps, beside the persisted state, the products handed to
  \<^verbatim>\<open>Insert\<close> and \<^verbatim>\<open>Update\<close>, in the order of the calls: what the services write.
\<close>

definition recording :: "'db executor \<Rightarrow> ('db \<times> Product list) executor" where
  "recording ex =
     \<lparr>ProductsAll = (\<lambda>(db, written). ProductsAll ex db),
      FindProduct = (\<lambda>(db, written) i. FindProduct ex db i),
      ProductInsert =
        (\<lambda>(db, written) p. case ProductInsert ex db p of (r, db') \<Rightarrow> (r, (db', written @ [p]))),
      ProductUpdate =
        (\<lambda>(db, written) p. case ProductUpdate ex db p of (r, db') \<Rightarrow> (r, (db', written @ [p]))),
      ProductDelete =
        (\<lambda>(db, written) p. case ProductDelete ex db p of (r, db') \<Rightarrow> (r, (db', written)))\<rparr>"

text \<open>
  A storage call is a single statement: an executor on which a write that fails leaves
  the persisted state as it was.
\<close>

definition failed_write_keeps_state :: "'db executor \<Rightarrow> bool" where
  "failed_write_keeps_state ex =
     ((\<forall>db p e db'. ProductInsert ex db p = (Inl e, db') \<longrightarrow> db' = db) \<and>
      (\<forall>db p e db'. ProductUpdate ex db p = (Inl e, db') \<longrightarrow> db' = db) \<and>
      (\<forall>db p e db'. ProductDelete ex db p = (Inl e, db') \<longrightarrow> db' = db))"

text \<open>
  Deletion is for good: the lookup returns a row with the identifier asked for, and
  after a delete that succeeded the lookup of the deleted product's identifier, on the
  state the delete left, reports no row. Nothing is said of a delete that fails.
\<close>

definition delete_removes_row :: "'db executor \<Rightarrow> bool" where
  "delete_removes_row ex =
     ((\<forall>db i p. FindProduct ex db i = Inr p \<longrightarrow> ID p = i) \<and>
      (\<forall>db p n db'. ProductDelete ex db p = (Inr n, db') \<longrightarrow>
         FindProduct ex db' (ID p) = Inl ErrNoRows))"




text \<open>A service error carries one of the three classifications.\<close>

definition classified :: "ServiceError \<Rightarrow> bool" where
  "classified se =
     (Code se = StatusNotFound \<or> Code se = StatusBadRequest \<or>
      Code se = StatusInternalServerError)"

text \<open>
  The two conversions of the price as both write operations chain them
  (\<^verbatim>\<open>products.go\<close>, lines 64 to 81 and 125 to 142), each failure with its service error.
\<close>

definition price_conversion :: "int \<Rightarrow> ServiceError + Decimal" where
  "price_conversion n =
     (case NewFromString (Itoa n) of
        Inl err \<Rightarrow>
          Inl \<lparr>Message = ''Invalid price format'', Error = err, Code = StatusBadRequest\<rparr>
      | Inr dec \<Rightarrow>
          (case Scan (Decimal_String dec) of
             Inl err \<Rightarrow>
               Inl \<lparr>Message = ''Failed to convert price to decimal'', Error = err,
                    Code = StatusInternalServerError\<rparr>
           | Inr price \<Rightarrow> Inr price))"

text \<open>The product a create, and an update of a product found, hand to storage.\<close>

abbreviation created :: "ProductBody \<Rightarrow> Decimal \<Rightarrow> Product" where
  "created body price \<equiv>
     \<lparr>ID = 0, Product.Name = ProductBody.Name body,
      Product.Description =
        \<lparr>String = ProductBody.Description body,
         Valid = (ProductBody.Description body \<noteq> [])\<rparr>,
      Product.Price = price\<rparr>"

abbreviation updated :: "Product \<Rightarrow> ProductBody \<Rightarrow> Decimal \<Rightarrow> Product" where
  "updated found body price \<equiv>
     found\<lparr>Product.Name := ProductBody.Name body,
           Product.Description :=
             \<lparr>String = ProductBody.Description body,
              Valid = (ProductBody.Description body \<noteq> [])\<rparr>,
           Product.Price := price\<rparr>"

section \<open>The write operations, stage by stage\<close>

text \<open>
  The lemmas of this section and the next hold whatever the two conversions of the
  price return: they unfold the operations and nothing of the conversions.
\<close>

lemma price_conversion_failure:
  "price_conversion n = Inl se \<Longrightarrow>
   Message se = ''Invalid price format'' \<and> Code se = StatusBadRequest \<or>
   Message se = ''Failed to convert price to decimal'' \<and> Code se = StatusInternalServerError"
  by (auto simp: price_conversion_def split: sum.splits)

lemma CreateProduct_negative_price:
  "ProductBody.Price body < 0 \<Longrightarrow>
   CreateProduct dbTrx db body =
     (Inl \<lparr>Message = ''Price cannot be negative'', Error = ErrorsNew ''invalid price'',
            Code = StatusBadRequest\<rparr>, db)"
  by (simp add: CreateProduct_def)

lemma CreateProduct_conversion_failed:
  "\<not> ProductBody.Price body < 0 \<Longrightarrow> price_conversion (ProductBody.Price body) = Inl se \<Longrightarrow>
   CreateProduct dbTrx db body = (Inl se, db)"
  by (auto simp: CreateProduct_def price_conversion_def split: sum.splits)

lemma CreateProduct_insert:
  "\<not> ProductBody.Price body < 0 \<Longrightarrow> price_conversion (ProductBody.Price body) = Inr price \<Longrightarrow>
   CreateProduct dbTrx db body =
     (case ProductInsert dbTrx db (created body price) of
        (Inl err, db') \<Rightarrow>
          (Inl \<lparr>Message = ''Unable to create product'', Error = err,
                 Code = StatusInternalServerError\<rparr>, db')
      | (Inr new_id, db') \<Rightarrow> (Inr ((created body price)\<lparr>ID := new_id\<rparr>), db'))"
  by (auto simp: CreateProduct_def price_conversion_def Let_def split: sum.splits)

lemma UpdateProduct_lookup_failed:
  "FindProduct dbTrx db id' = Inl err \<Longrightarrow>
   UpdateProduct dbTrx db id' body =
     (if err = ErrNoRows
      then (Inl \<lparr>Message = ''Product not found'', Error = err, Code = StatusNotFound\<rparr>, db)
      else (Inl \<lparr>Message = ''Unable to get product'', Error = err,
                  Code = StatusInternalServerError\<rparr>, db))"
  by (simp add: UpdateProduct_def)

lemma UpdateProduct_negative_price:
  "FindProduct dbTrx db id' = Inr found \<Longrightarrow> ProductBody.Price body < 0 \<Longrightarrow>
   UpdateProduct dbTrx db id' body =
     (Inl \<lparr>Message = ''Price cannot be negative'', Error = ErrorsNew ''invalid price'',
            Code = StatusBadRequest\<rparr>, db)"
  by (simp add: UpdateProduct_def)

lemma UpdateProduct_conversion_failed:
  "FindProduct dbTrx db id' = Inr found \<Longrightarrow> \<not> ProductBody.Price body < 0 \<Longrightarrow>
   price_conversion (ProductBody.Price body) = Inl se \<Longrightarrow>
   UpdateProduct dbTrx db id' body = (Inl se, db)"
  by (auto simp: UpdateProduct_def price_conversion_def split: sum.splits)

lemma UpdateProduct_update:
  "FindProduct dbTrx db id' = Inr found \<Longrightarrow> \<not> ProductBody.Price body < 0 \<Longrightarrow>
   price_conversion (ProductBody.Price body) = Inr price \<Longrightarrow>
   UpdateProduct dbTrx db id' body =
     (case ProductUpdate dbTrx db (updated found body price) of
        (Inl err, db') \<Rightarrow>
          (Inl \<lparr>Message = ''Unable to update product'', Error = err,
                 Code = StatusInternalServerError\<rparr>, db')
      | (Inr rowsAff, db') \<Rightarrow> (Inr (updated found body price), db'))"
  by (auto simp: UpdateProduct_def price_conversion_def Let_def split: sum.splits)

section \<open>How the operations fail\<close>





text \<open>
  A failing write operation has failed before its storage write or in it; on an
  executor whose failing writes keep the state, the state is the one it started from.
\<close>

lemma read_failure:
  "(GetProducts dbTrx db = Inl se \<longrightarrow> classified se) \<and>
   (GetProduct dbTrx db id' = Inl se' \<longrightarrow> classified se')"
  by (auto simp: GetProducts_def GetProduct_def classified_def split: sum.splits if_splits)

lemma CreateProduct_failure:
  assumes "failed_write_keeps_state dbTrx" and "CreateProduct dbTrx db body = (Inl se, db')"
  shows "classified se \<and> db' = db"
proof (cases "ProductBody.Price body < 0")
  case True
  with assms(2) show ?thesis
    by (auto simp: CreateProduct_negative_price classified_def)
next
  case False
  show ?thesis
  proof (cases "price_conversion (ProductBody.Price body)")
    case (Inl se0)
    with assms(2) False have "se = se0" "db' = db"
      by (simp_all add: CreateProduct_conversion_failed)
    with Inl show ?thesis
      by (auto simp: classified_def dest: price_conversion_failure)
  next
    case (Inr price)
    obtain r d where i: "ProductInsert dbTrx db (created body price) = (r, d)"
      by (meson surj_pair)
    show ?thesis
    proof (cases r)
      case (Inl e)
      with i assms(1) have "d = db"
        unfolding failed_write_keeps_state_def by blast
      with i Inl assms(2) show ?thesis
        by (auto simp: CreateProduct_insert [OF False Inr] classified_def)
    next
      case r: (Inr n)
      with i assms(2) show ?thesis
        by (simp add: CreateProduct_insert [OF False Inr])
    qed
  qed
qed

lemma UpdateProduct_failure:
  assumes "failed_write_keeps_state dbTrx"
    and "UpdateProduct dbTrx db id' body = (Inl se, db')"
  shows "classified se \<and> db' = db"
proof (cases "FindProduct dbTrx db id'")
  case (Inl err)
  with assms(2) show ?thesis
    by (auto simp: UpdateProduct_lookup_failed classified_def split: if_splits)
next
  case found: (Inr found)
  show ?thesis
  proof (cases "ProductBody.Price body < 0")
    case True
    with found assms(2) show ?thesis
      by (auto simp: UpdateProduct_negative_price classified_def)
  next
    case False
    show ?thesis
    proof (cases "price_conversion (ProductBody.Price body)")
      case (Inl se0)
      with assms(2) found False have "se = se0" "db' = db"
        by (simp_all add: UpdateProduct_conversion_failed)
      with Inl show ?thesis
        by (auto simp: classified_def dest: price_conversion_failure)
    next
      case (Inr price)
      obtain r d where u: "ProductUpdate dbTrx db (updated found body price) = (r, d)"
        by (meson surj_pair)
      show ?thesis
      proof (cases r)
        case (Inl e)
        with u assms(1) have "d = db"
          unfolding failed_write_keeps_state_def by blast
        with u Inl assms(2) show ?thesis
          by (auto simp: UpdateProduct_update [OF found False Inr] classified_def)
      next
        case r: (Inr n)
        with u assms(2) show ?thesis
          by (simp add: UpdateProduct_update [OF found False Inr])
      qed
    qed
  qed
qed

lemma DeleteProduct_failure:
  assumes "failed_write_keeps_state dbTrx"
    and "DeleteProduct dbTrx db id' = (Some se, db')"
  shows "classified se \<and> db' = db"
proof (cases "FindProduct dbTrx db id'")
  case (Inl err)
  with assms(2) show ?thesis
    by (auto simp: DeleteProduct_def classified_def split: if_splits)
next
  case found: (Inr found)
  obtain r d where u: "ProductDelete dbTrx db found = (r, d)"
    by (meson surj_pair)
  show ?thesis
  proof (cases r)
    case (Inl e)
    with u assms(1) have "d = db"
      unfolding failed_write_keeps_state_def by blast
    with u Inl assms(2) found show ?thesis
      by (auto simp: DeleteProduct_def classified_def)
  next
    case (Inr n)
    with u assms(2) found show ?thesis
      by (simp add: DeleteProduct_def)
  qed
qed

lemma table_failed_write_keeps_state: "failed_write_keeps_state table_executor"
  by (auto simp: failed_write_keeps_state_def table_executor_def table_Insert_def
        table_Update_def table_Delete_def split: option.splits)






text \<open>What the write operations hand to storage, read off a recording executor.\<close>

lemma recording_ProductInsert:
  "ProductInsert dbTrx db p = (r, db') \<Longrightarrow>
   ProductInsert (recording dbTrx) (db, written) p = (r, (db', written @ [p]))"
  by (simp add: recording_def)

lemma recording_ProductUpdate:
  "ProductUpdate dbTrx db p = (r, db') \<Longrightarrow>
   ProductUpdate (recording dbTrx) (db, written) p = (r, (db', written @ [p]))"
  by (simp add: recording_def)

lemma CreateProduct_written:
  "\<exists>new. snd (snd (CreateProduct (recording dbTrx) (db, written) body)) = written @ new \<and>
     (\<forall>p \<in> set new.
        Product.Description p =
          \<lparr>String = ProductBody.Description body,
           Valid = (ProductBody.Description body \<noteq> [])\<rparr>)"
proof (cases "ProductBody.Price body < 0")
  case True
  then show ?thesis by (simp add: CreateProduct_negative_price)
next
  case False
  show ?thesis
  proof (cases "price_conversion (ProductBody.Price body)")
    case (Inl se0)
    with False show ?thesis by (simp add: CreateProduct_conversion_failed)
  next
    case (Inr price)
    obtain r db' where "ProductInsert dbTrx db (created body price) = (r, db')"
      by (meson surj_pair)
    then have w: "ProductInsert (recording dbTrx) (db, written) (created body price) =
                    (r, (db', written @ [created body price]))"
      by (rule recording_ProductInsert)
    have "snd (snd (CreateProduct (recording dbTrx) (db, written) body)) =
            written @ [created body price]"
      using w by (cases r) (simp_all add: CreateProduct_insert [OF False Inr])
    then show ?thesis by simp
  qed
qed

lemma UpdateProduct_written:
  "\<exists>new. snd (snd (UpdateProduct (recording dbTrx) (db, written) id' body)) = written @ new \<and>
     (\<forall>p \<in> set new.
        Product.Description p =
          \<lparr>String = ProductBody.Description body,
           Valid = (ProductBody.Description body \<noteq> [])\<rparr>)"
proof (cases "FindProduct (recording dbTrx) (db, written) id'")
  case (Inl err)
  then show ?thesis by (simp add: UpdateProduct_lookup_failed)
next
  case found: (Inr found)
  show ?thesis
  proof (cases "ProductBody.Price body < 0")
    case True
    with found show ?thesis by (simp add: UpdateProduct_negative_price)
  next
    case False
    show ?thesis
    proof (cases "price_conversion (ProductBody.Price body)")
      case (Inl se0)
      with found False show ?thesis by (simp add: UpdateProduct_conversion_failed)
    next
      case (Inr price)
      obtain r db' where "ProductUpdate dbTrx db (updated found body price) = (r, db')"
        by (meson surj_pair)
      then have w: "ProductUpdate (recording dbTrx) (db, written) (updated found body price) =
                      (r, (db', written @ [updated found body price]))"
        by (rule recording_ProductUpdate)
      have "snd (snd (UpdateProduct (recording dbTrx) (db, written) id' body)) =
              written @ [updated found body price]"
        using w by (cases r) (simp_all add: UpdateProduct_update [OF found False Inr])
      then show ?thesis by simp
    qed
  qed
qed

text \<open>Deleting from a table leaves no row with the identifier.\<close>

lemma find_filter_None: "find (\<lambda>p. ID p = i) (filter (\<lambda>q. ID q \<noteq> i) xs) = None"
  by (simp add: find_None_iff)

lemma table_delete_removes_row: "delete_removes_row table_executor"
  by (auto simp: delete_removes_row_def table_executor_def table_Find_def table_Delete_def
        find_Some_iff find_filter_None split: option.splits)

lemma delete_refused_removes_row: "delete_removes_row delete_refused"
  by (auto simp: delete_removes_row_def delete_refused_def table_Find_def find_Some_iff
        split: option.splits)

section \<open>Printing a price and parsing it back\<close>

lemma digit_cases:
  "d < 10 \<Longrightarrow>
   d = 0 \<or> d = 1 \<or> d = 2 \<or> d = 3 \<or> d = 4 \<or> d = 5 \<or> d = 6 \<or> d = 7 \<or> d = 8 \<or> d = (9::nat)"
  by arith

lemma digit_val_digit_char: "d < 10 \<Longrightarrow> digit_val (digit_char d) = Some d"
  using digit_cases [of d] by (auto simp: digit_val_def digit_char_def)

lemma digit_val_no_mark:
  "digit_val c = Some d \<Longrightarrow>
   \<not> is_exp_mark c \<and> \<not> is_point c \<and> c \<noteq> CHR ''-'' \<and> c \<noteq> CHR ''+''"
  by (auto simp: digit_val_def is_exp_mark_def is_point_def split: if_splits)

lemma digits_value_snoc:
  "digits_value acc (cs @ [c]) =
     (case digits_value acc cs of
        None \<Rightarrow> None
      | Some v \<Rightarrow> (case digit_val c of None \<Rightarrow> None | Some d \<Rightarrow> Some (v * 10 + d)))"
  by (induction cs arbitrary: acc) (auto split: option.splits)

lemma digits_value_FormatUint: "digits_value 0 (FormatUint n) = Some n"
proof (induction n rule: FormatUint.induct)
  case (1 n)
  show ?case
  proof (cases "n < 10")
    case True
    then show ?thesis
      by (subst FormatUint.simps) (simp add: digit_val_digit_char)
  next
    case False
    with "1" have "digits_value 0 (FormatUint (n div 10)) = Some (n div 10)" by simp
    with False show ?thesis
      by (subst FormatUint.simps) (simp add: digits_value_snoc digit_val_digit_char)
  qed
qed

lemma FormatUint_digits: "c \<in> set (FormatUint n) \<Longrightarrow> \<exists>d. digit_val c = Some d"
proof (induction n rule: FormatUint.induct)
  case (1 n)
  show ?case
  proof (cases "n < 10")
    case True
    with "1.prems" show ?thesis
      by (subst (asm) FormatUint.simps) (simp add: digit_val_digit_char)
  next
    case False
    with "1.prems" have "c \<in> set (FormatUint (n div 10)) \<or> c = digit_char (n mod 10)"
      by (subst (asm) FormatUint.simps) auto
    with False "1.IH" show ?thesis
      by (auto simp: digit_val_digit_char)
  qed
qed

lemma FormatUint_not_Nil: "FormatUint n \<noteq> []"
  by (subst FormatUint.simps) simp

lemma Itoa_chars: "c \<in> set (Itoa i) \<Longrightarrow> \<not> is_exp_mark c \<and> \<not> is_point c"
  by (auto simp: Itoa_def is_exp_mark_def is_point_def split: if_splits
           dest!: FormatUint_digits digit_val_no_mark)

lemma parse_integer_Itoa: "parse_integer (Itoa i) = Some i"
proof (cases "i < 0")
  case True
  then show ?thesis
    by (simp add: Itoa_def parse_integer_def FormatUint_not_Nil digits_value_FormatUint)
next
  case False
  obtain c cs where eq: "FormatUint (nat i) = c # cs"
    using FormatUint_not_Nil [of "nat i"] by (cases "FormatUint (nat i)") auto
  then have "c \<in> set (FormatUint (nat i))" by simp
  then obtain d where "digit_val c = Some d"
    using FormatUint_digits by blast
  then have "c \<noteq> CHR ''-''" "c \<noteq> CHR ''+''"
    using digit_val_no_mark by blast+
  moreover have "digits_value 0 (c # cs) = Some (nat i)"
    using digits_value_FormatUint [of "nat i"] eq by simp
  ultimately show ?thesis
    using False eq by (simp add: Itoa_def parse_integer_def)
qed

lemma NewFromString_Itoa: "NewFromString (Itoa i) = Inr \<lparr>value = i, exp = 0\<rparr>"
proof -
  have all: "\<forall>c \<in> set (Itoa i). \<not> is_exp_mark c" "\<forall>c \<in> set (Itoa i). \<not> is_point c"
    using Itoa_chars by blast+
  have m: "takeWhile (\<lambda>c. \<not> is_exp_mark c) (Itoa i) = Itoa i"
    using all(1) by (simp add: takeWhile_eq_all_conv)
  have r: "dropWhile (\<lambda>c. \<not> is_exp_mark c) (Itoa i) = []"
    using all(1) by (simp add: dropWhile_eq_Nil_conv)
  have p: "filter is_point (Itoa i) = []"
    using all(2) by (simp add: filter_empty_conv)
  have q: "filter (\<lambda>c. \<not> is_point c) (Itoa i) = Itoa i"
    using all(2) by (simp add: filter_id_conv)
  have f: "dropWhile (\<lambda>c. \<not> is_point c) (Itoa i) = []"
    using all(2) by (simp add: dropWhile_eq_Nil_conv)
  show ?thesis
    by (simp add: NewFromString_def m r p q f parse_integer_Itoa in_int32_def)
qed

lemma Decimal_String_integer: "Decimal_String \<lparr>value = i, exp = 0\<rparr> = Itoa i"
  by (simp add: Decimal_String_def)

lemma Scan_Itoa: "Scan (Itoa i) = Inr \<lparr>value = i, exp = 0\<rparr>"
  by (simp add: Scan_def NewFromString_Itoa)

text \<open>
  With the two conversions resolved, what the write operations do once the price has
  passed the check: the product they hand to storage carries the price as the decimal
  with that coefficient and exponent 0.
\<close>

lemma price_conversion_exact: "price_conversion n = Inr \<lparr>value = n, exp = 0\<rparr>"
  by (simp add: price_conversion_def NewFromString_Itoa Decimal_String_integer Scan_Itoa)

lemma CreateProduct_valid_price:
  "\<not> ProductBody.Price body < 0 \<Longrightarrow>
   CreateProduct dbTrx db body =
     (case ProductInsert dbTrx db
             (created body \<lparr>value = ProductBody.Price body, exp = 0\<rparr>) of
        (Inl err, db') \<Rightarrow>
          (Inl \<lparr>Message = ''Unable to create product'', Error = err,
                 Code = StatusInternalServerError\<rparr>, db')
      | (Inr new_id, db') \<Rightarrow>
          (Inr ((created body \<lparr>value = ProductBody.Price body, exp = 0\<rparr>)\<lparr>ID := new_id\<rparr>),
           db'))"
  by (rule CreateProduct_insert [OF _ price_conversion_exact])

lemma UpdateProduct_valid_price:
  "FindProduct dbTrx db id' = Inr found \<Longrightarrow> \<not> ProductBody.Price body < 0 \<Longrightarrow>
   UpdateProduct dbTrx db id' body =
     (case ProductUpdate dbTrx db
             (updated found body \<lparr>value = ProductBody.Price body, exp = 0\<rparr>) of
        (Inl err, db') \<Rightarrow>
          (Inl \<lparr>Message = ''Unable to update product'', Error = err,
                 Code = StatusInternalServerError\<rparr>, db')
      | (Inr rowsAff, db') \<Rightarrow>
          (Inr (updated found body \<lparr>value = ProductBody.Price body, exp = 0\<rparr>), db'))"
  by (rule UpdateProduct_update [OF _ _ price_conversion_exact])

text \<open>No failure of a create or an update comes from a conversion of the price.\<close>

lemma CreateProduct_no_conversion_failure:
  "fst (CreateProduct dbTrx db body) = Inl se \<Longrightarrow>
   Message se = ''Price cannot be negative'' \<or> Message se = ''Unable to create product''"
proof (cases "ProductBody.Price body < 0")
  case True
  assume "fst (CreateProduct dbTrx db body) = Inl se"
  with True show ?thesis by (auto simp: CreateProduct_negative_price)
next
  case False
  assume "fst (CreateProduct dbTrx db body) = Inl se"
  with False show ?thesis
    by (auto simp: CreateProduct_valid_price split: prod.splits sum.splits)
qed

lemma UpdateProduct_no_conversion_failure:
  "fst (UpdateProduct dbTrx db id' body) = Inl se \<Longrightarrow>
   Message se = ''Product not found'' \<or> Message se = ''Unable to get product'' \<or>
   Message se = ''Price cannot be negative'' \<or> Message se = ''Unable to update product''"
proof -
  assume a: "fst (UpdateProduct dbTrx db id' body) = Inl se"
  show ?thesis
  proof (cases "FindProduct dbTrx db id'")
    case (Inl err)
    with a show ?thesis
      by (auto simp: UpdateProduct_lookup_failed split: if_splits)
  next
    case (Inr found)
    show ?thesis
    proof (cases "ProductBody.Price body < 0")
      case True
      with a Inr show ?thesis by (auto simp: UpdateProduct_negative_price)
    next
      case False
      with a Inr show ?thesis
        by (auto simp: UpdateProduct_valid_price split: prod.splits sum.splits)
    qed
  qed
qed

section \<open>Properties\<close>

text \<open>
  C1, as the code has it. For a body with a negative price, \<open>CreateProduct\<close> fails with
  the bad-request code 400 and returns the persisted state it was given: it has called
  no storage write. \<open>UpdateProduct\<close> with that body returns the persisted state it was
  given as well, and fails: with the error of the lookup, the one \<open>GetProduct\<close>
  returns, when the lookup fails, and with the bad-request code 400 for every
  identifier the lookup finds.
\<close>

theorem negative_price_rejected:
  assumes "ProductBody.Price body < 0"
  shows "CreateProduct dbTrx db body =
           (Inl \<lparr>Message = ''Price cannot be negative'', Error = ErrorsNew ''invalid price'',
                  Code = StatusBadRequest\<rparr>, db) \<and>
         UpdateProduct dbTrx db id' body =
           (case GetProduct dbTrx db id' of
              Inl se \<Rightarrow> (Inl se, db)
            | Inr found \<Rightarrow>
                (Inl \<lparr>Message = ''Price cannot be negative'',
                       Error = ErrorsNew ''invalid price'', Code = StatusBadRequest\<rparr>, db))"
proof
  show "CreateProduct dbTrx db body =
           (Inl \<lparr>Message = ''Price cannot be negative'', Error = ErrorsNew ''invalid price'',
                  Code = StatusBadRequest\<rparr>, db)"
    using assms by (rule CreateProduct_negative_price)
next
  show "UpdateProduct dbTrx db id' body =
           (case GetProduct dbTrx db id' of
              Inl se \<Rightarrow> (Inl se, db)
            | Inr found \<Rightarrow>
                (Inl \<lparr>Message = ''Price cannot be negative'',
                       Error = ErrorsNew ''invalid price'', Code = StatusBadRequest\<rparr>, db))"
  proof (cases "FindProduct dbTrx db id'")
    case (Inl err)
    then show ?thesis
      by (simp add: UpdateProduct_lookup_failed GetProduct_def)
  next
    case (Inr found)
    with assms show ?thesis
      by (simp add: UpdateProduct_negative_price GetProduct_def)
  qed
qed

text \<open>On the table holding product 1, both operations reject the price \<open>-5\<close>.\<close>

theorem negative_price_rejected_witness:
  "ProductBody.Price \<lparr>ProductBody.Name = ''Widget'', ProductBody.Description = ''d'',
                      ProductBody.Price = - 5\<rparr> < 0 \<and>
   CreateProduct table_executor widget_table
       \<lparr>ProductBody.Name = ''Widget'', ProductBody.Description = ''d'',
        ProductBody.Price = - 5\<rparr> =
     (Inl \<lparr>Message = ''Price cannot be negative'', Error = ErrorsNew ''invalid price'',
            Code = 400\<rparr>, widget_table) \<and>
   UpdateProduct table_executor widget_table 1
       \<lparr>ProductBody.Name = ''Widget'', ProductBody.Description = ''d'',
        ProductBody.Price = - 5\<rparr> =
     (Inl \<lparr>Message = ''Price cannot be negative'', Error = ErrorsNew ''invalid price'',
            Code = 400\<rparr>, widget_table)"
proof -
  have h: "ProductBody.Price \<lparr>ProductBody.Name = ''Widget'', ProductBody.Description = ''d'',
                      ProductBody.Price = - 5\<rparr> < 0"
    by simp
  have g: "GetProduct table_executor widget_table 1 = Inr (hd (rows widget_table))"
    by (simp add: GetProduct_def table_executor_def table_Find_def widget_table_def)
  show ?thesis
    using h negative_price_rejected [OF h, of table_executor widget_table 1] g
    by (simp add: StatusBadRequest_def)
qed

text \<open>
  C1 as stated fails: on the empty table no product has identifier 7, and
  \<open>UpdateProduct\<close> with the price \<open>-5\<close> fails with the not-found code 404, not with the
  bad-request code 400.
\<close>

theorem UpdateProduct_negative_price_counterexample:
  "ProductBody.Price \<lparr>ProductBody.Name = ''Widget'', ProductBody.Description = ''d'',
                      ProductBody.Price = - 5\<rparr> < 0 \<and>
   UpdateProduct table_executor empty_table 7
       \<lparr>ProductBody.Name = ''Widget'', ProductBody.Description = ''d'',
        ProductBody.Price = - 5\<rparr> =
     (Inl \<lparr>Message = ''Product not found'', Error = ErrNoRows, Code = 404\<rparr>, empty_table) \<and>
   StatusBadRequest \<noteq> 404"
  by (simp add: UpdateProduct_def table_executor_def table_Find_def empty_table_def
        StatusNotFound_def StatusBadRequest_def)

text \<open>
  C2. \<open>UpdateProduct\<close> looks the product up before it looks at the body: whenever the
  lookup fails, it returns the service error \<open>GetProduct\<close> returns for that identifier
  (not-found, 404, when the lookup reports no row; internal-error, 500, on any other
  error), whatever the body, a negative price included, and leaves the persisted state.
\<close>

theorem UpdateProduct_lookup_first:
  assumes "FindProduct dbTrx db id' = Inl err"
  shows "GetProduct dbTrx db id' =
           Inl \<lparr>Message = (if err = ErrNoRows then ''Product not found''
                            else ''Unable to get product''),
                Error = err,
                Code = (if err = ErrNoRows then StatusNotFound
                        else StatusInternalServerError)\<rparr> \<and>
         UpdateProduct dbTrx db id' body =
           (Inl \<lparr>Message = (if err = ErrNoRows then ''Product not found''
                             else ''Unable to get product''),
                 Error = err,
                 Code = (if err = ErrNoRows then StatusNotFound
                         else StatusInternalServerError)\<rparr>, db)"
  using assms by (simp add: GetProduct_def UpdateProduct_lookup_failed)

theorem UpdateProduct_lookup_first_witness:
  "FindProduct table_executor widget_table 2 = Inl ErrNoRows \<and>
   GetProduct table_executor widget_table 2 =
     Inl \<lparr>Message = ''Product not found'', Error = ErrNoRows, Code = 404\<rparr> \<and>
   UpdateProduct table_executor widget_table 2
       \<lparr>ProductBody.Name = ''Gadget'', ProductBody.Description = [],
        ProductBody.Price = - 1\<rparr> =
     (Inl \<lparr>Message = ''Product not found'', Error = ErrNoRows, Code = 404\<rparr>, widget_table)"
proof -
  have h: "FindProduct table_executor widget_table 2 = Inl ErrNoRows"
    by (simp add: table_executor_def table_Find_def widget_table_def)
  show ?thesis
    using h UpdateProduct_lookup_first [OF h,
        of "\<lparr>ProductBody.Name = ''Gadget'', ProductBody.Description = [],
             ProductBody.Price = - 1\<rparr>"]
    by (simp add: StatusNotFound_def)
qed

text \<open>
  C3. For a body with a price \<open>n \<ge> 0\<close>, when the storage insert of the product built
  from the body succeeds, \<open>CreateProduct\<close> succeeds; the entity it returns has the
  assigned identifier and, as its price, the decimal with coefficient \<open>n\<close> and exponent
  0, which is \<open>n\<close> exactly and converts back to the integer \<open>n\<close>.
\<close>

theorem CreateProduct_price_exact:
  assumes "0 \<le> ProductBody.Price body"
    and "ProductInsert dbTrx db
           \<lparr>ID = 0, Product.Name = ProductBody.Name body,
            Product.Description =
              \<lparr>String = ProductBody.Description body,
               Valid = (ProductBody.Description body \<noteq> [])\<rparr>,
            Product.Price = \<lparr>value = ProductBody.Price body, exp = 0\<rparr>\<rparr> = (Inr new_id, db')"
  shows "\<exists>product. CreateProduct dbTrx db body = (Inr product, db') \<and>
           product =
             \<lparr>ID = new_id, Product.Name = ProductBody.Name body,
              Product.Description =
                \<lparr>String = ProductBody.Description body,
                 Valid = (ProductBody.Description body \<noteq> [])\<rparr>,
              Product.Price = \<lparr>value = ProductBody.Price body, exp = 0\<rparr>\<rparr> \<and>
           Decimal_to_int (Product.Price product) = Some (ProductBody.Price body)"
  using assms by (simp add: CreateProduct_valid_price Decimal_to_int_def)

text \<open>The spec's example: creating the widget of price 10 on the empty table.\<close>

theorem CreateProduct_price_exact_witness:
  "CreateProduct table_executor empty_table
       \<lparr>ProductBody.Name = ''Widget'', ProductBody.Description = [],
        ProductBody.Price = 10\<rparr> =
     (Inr \<lparr>ID = 1, Product.Name = ''Widget'',
           Product.Description = \<lparr>String = [], Valid = False\<rparr>,
           Product.Price = \<lparr>value = 10, exp = 0\<rparr>\<rparr>, widget_table) \<and>
   Decimal_to_int \<lparr>value = 10, exp = 0\<rparr> = Some 10"
proof -
  have h: "0 \<le> ProductBody.Price \<lparr>ProductBody.Name = ''Widget'',
             ProductBody.Description = [], ProductBody.Price = 10\<rparr>"
    by simp
  have i: "ProductInsert table_executor empty_table
             \<lparr>ID = 0,
              Product.Name = ProductBody.Name \<lparr>ProductBody.Name = ''Widget'',
                ProductBody.Description = [], ProductBody.Price = 10\<rparr>,
              Product.Description =
                \<lparr>String = ProductBody.Description \<lparr>ProductBody.Name = ''Widget'',
                   ProductBody.Description = [], ProductBody.Price = 10\<rparr>,
                 Valid = (ProductBody.Description \<lparr>ProductBody.Name = ''Widget'',
                   ProductBody.Description = [], ProductBody.Price = 10\<rparr> \<noteq> [])\<rparr>,
              Product.Price = \<lparr>value = ProductBody.Price \<lparr>ProductBody.Name = ''Widget'',
                ProductBody.Description = [], ProductBody.Price = 10\<rparr>, exp = 0\<rparr>\<rparr> =
           (Inr 1, widget_table)"
    by (simp add: table_executor_def table_Insert_def empty_table_def widget_table_def)
  show ?thesis
    using CreateProduct_price_exact [OF h i]
    by (auto simp: Decimal_to_int_def)
qed

text \<open>
  C4. Every product \<open>CreateProduct\<close> or \<open>UpdateProduct\<close> hands to a storage write has the
  description of the body as a nullable text: absent (not valid) exactly when the
  body's description is the empty string, and otherwise present with exactly that
  text; none is present and empty.
\<close>

theorem written_description:
  "\<exists>new new'.
     snd (snd (CreateProduct (recording dbTrx) (db, written) body)) = written @ new \<and>
     snd (snd (UpdateProduct (recording dbTrx) (db, written) id' body)) = written @ new' \<and>
     (\<forall>p \<in> set new \<union> set new'.
        Product.Description p =
          \<lparr>String = ProductBody.Description body,
           Valid = (ProductBody.Description body \<noteq> [])\<rparr> \<and>
        (Valid (Product.Description p) \<longleftrightarrow> ProductBody.Description body \<noteq> []) \<and>
        (Valid (Product.Description p) \<longrightarrow>
           String (Product.Description p) = ProductBody.Description body) \<and>
        \<not> (Valid (Product.Description p) \<and> String (Product.Description p) = []))"
proof -
  obtain new where n:
    "snd (snd (CreateProduct (recording dbTrx) (db, written) body)) = written @ new"
    "\<forall>p \<in> set new.
        Product.Description p =
          \<lparr>String = ProductBody.Description body,
           Valid = (ProductBody.Description body \<noteq> [])\<rparr>"
    using CreateProduct_written [of dbTrx db written body] by blast
  obtain new' where n':
    "snd (snd (UpdateProduct (recording dbTrx) (db, written) id' body)) = written @ new'"
    "\<forall>p \<in> set new'.
        Product.Description p =
          \<lparr>String = ProductBody.Description body,
           Valid = (ProductBody.Description body \<noteq> [])\<rparr>"
    using UpdateProduct_written [of dbTrx db written id' body] by blast
  have "\<forall>p \<in> set new \<union> set new'.
        Product.Description p =
          \<lparr>String = ProductBody.Description body,
           Valid = (ProductBody.Description body \<noteq> [])\<rparr> \<and>
        (Valid (Product.Description p) \<longleftrightarrow> ProductBody.Description body \<noteq> []) \<and>
        (Valid (Product.Description p) \<longrightarrow>
           String (Product.Description p) = ProductBody.Description body) \<and>
        \<not> (Valid (Product.Description p) \<and> String (Product.Description p) = [])"
    using n(2) n'(2) by auto
  with n(1) n'(1) show ?thesis by blast
qed

text \<open>
  On the table holding product 1: a create with an empty description hands storage a
  product without description, an update with the description \<open>d\<close> one whose
  description is present and is \<open>d\<close>.
\<close>

theorem written_description_witness:
  "snd (snd (CreateProduct (recording table_executor) (widget_table, [])
               \<lparr>ProductBody.Name = ''Gadget'', ProductBody.Description = [],
                ProductBody.Price = 3\<rparr>)) =
     [\<lparr>ID = 0, Product.Name = ''Gadget'',
       Product.Description = \<lparr>String = [], Valid = False\<rparr>,
       Product.Price = \<lparr>value = 3, exp = 0\<rparr>\<rparr>] \<and>
   snd (snd (UpdateProduct (recording table_executor) (widget_table, []) 1
               \<lparr>ProductBody.Name = ''Widget2'', ProductBody.Description = ''d'',
                ProductBody.Price = 20\<rparr>)) =
     [\<lparr>ID = 1, Product.Name = ''Widget2'',
       Product.Description = \<lparr>String = ''d'', Valid = True\<rparr>,
       Product.Price = \<lparr>value = 20, exp = 0\<rparr>\<rparr>]"
proof -
  have c: "snd (snd (CreateProduct (recording table_executor) (widget_table, [])
               \<lparr>ProductBody.Name = ''Gadget'', ProductBody.Description = [],
                ProductBody.Price = 3\<rparr>)) =
     [\<lparr>ID = 0, Product.Name = ''Gadget'',
       Product.Description = \<lparr>String = [], Valid = False\<rparr>,
       Product.Price = \<lparr>value = 3, exp = 0\<rparr>\<rparr>]"
    by (simp add: CreateProduct_valid_price recording_def table_executor_def
          table_Insert_def widget_table_def)
  have f: "FindProduct (recording table_executor) (widget_table, []) 1 =
             Inr (hd (rows widget_table))"
    by (simp add: recording_def table_executor_def table_Find_def widget_table_def)
  have u: "snd (snd (UpdateProduct (recording table_executor) (widget_table, []) 1
               \<lparr>ProductBody.Name = ''Widget2'', ProductBody.Description = ''d'',
                ProductBody.Price = 20\<rparr>)) =
     [\<lparr>ID = 1, Product.Name = ''Widget2'',
       Product.Description = \<lparr>String = ''d'', Valid = True\<rparr>,
       Product.Price = \<lparr>value = 20, exp = 0\<rparr>\<rparr>]"
    by (subst UpdateProduct_valid_price [OF f])
       (simp_all add: recording_def table_executor_def table_Update_def widget_table_def)
  show ?thesis
    using c u
      written_description [of table_executor widget_table "[]"
        "\<lparr>ProductBody.Name = ''Gadget'', ProductBody.Description = [],
          ProductBody.Price = 3\<rparr>" 1]
      written_description [of table_executor widget_table "[]"
        "\<lparr>ProductBody.Name = ''Widget2'', ProductBody.Description = ''d'',
          ProductBody.Price = 20\<rparr>" 1]
    by simp
qed

text \<open>
  C5. \<open>GetProduct\<close> returns the product the lookup returns; it fails with the not-found
  code 404 exactly when the lookup reports \<^verbatim>\<open>sql.ErrNoRows\<close>, and with the
  internal-error code 500 on every other error of the lookup. On a table, the product
  it returns is a row of the table and has the identifier asked for.
\<close>

theorem GetProduct_result:
  "(FindProduct dbTrx db id' = Inr product \<longrightarrow> GetProduct dbTrx db id' = Inr product) \<and>
   ((\<exists>se. GetProduct dbTrx db id' = Inl se \<and> Code se = StatusNotFound) \<longleftrightarrow>
      FindProduct dbTrx db id' = Inl ErrNoRows) \<and>
   (FindProduct dbTrx db id' = Inl err \<and> err \<noteq> ErrNoRows \<longrightarrow>
      GetProduct dbTrx db id' =
        Inl \<lparr>Message = ''Unable to get product'', Error = err,
             Code = StatusInternalServerError\<rparr>) \<and>
   (GetProduct table_executor t id' = Inr row \<longrightarrow> row \<in> set (rows t) \<and> ID row = id')"
  by (auto simp: GetProduct_def StatusNotFound_def StatusInternalServerError_def
        table_executor_def table_Find_def find_Some_iff
        split: sum.splits option.splits if_splits)

theorem GetProduct_result_witness:
  "GetProduct table_executor widget_table 1 =
     Inr \<lparr>ID = 1, Product.Name = ''Widget'',
          Product.Description = \<lparr>String = [], Valid = False\<rparr>,
          Product.Price = \<lparr>value = 10, exp = 0\<rparr>\<rparr> \<and>
   FindProduct table_executor widget_table 2 = Inl ErrNoRows \<and>
   (\<exists>se. GetProduct table_executor widget_table 2 = Inl se \<and> Code se = 404) \<and>
   GetProduct table_executor unavailable_table 1 =
     Inl \<lparr>Message = ''Unable to get product'', Error = ErrorsNew ''connection refused'',
          Code = 500\<rparr>"
proof -
  have a: "FindProduct table_executor widget_table 1 =
     Inr \<lparr>ID = 1, Product.Name = ''Widget'',
          Product.Description = \<lparr>String = [], Valid = False\<rparr>,
          Product.Price = \<lparr>value = 10, exp = 0\<rparr>\<rparr>"
    by (simp add: table_executor_def table_Find_def widget_table_def)
  have b: "FindProduct table_executor widget_table 2 = Inl ErrNoRows"
    by (simp add: table_executor_def table_Find_def widget_table_def)
  have c: "FindProduct table_executor unavailable_table 1 =
             Inl (ErrorsNew ''connection refused'')"
    by (simp add: table_executor_def table_Find_def unavailable_table_def)
  show ?thesis
    using a b c
      GetProduct_result [of table_executor widget_table 1
        "\<lparr>ID = 1, Product.Name = ''Widget'',
          Product.Description = \<lparr>String = [], Valid = False\<rparr>,
          Product.Price = \<lparr>value = 10, exp = 0\<rparr>\<rparr>" ErrNoRows widget_table
        "\<lparr>ID = 1, Product.Name = ''Widget'',
          Product.Description = \<lparr>String = [], Valid = False\<rparr>,
          Product.Price = \<lparr>value = 10, exp = 0\<rparr>\<rparr>"]
      GetProduct_result [of table_executor widget_table 2 undefined ErrNoRows]
      GetProduct_result [of table_executor unavailable_table 1 undefined
        "ErrorsNew ''connection refused''"]
    by (simp add: StatusNotFound_def StatusInternalServerError_def)
qed

text \<open>
  C6. Take any executor on which deletion is for good: its lookup returns a row with
  the identifier asked for, and after a storage delete that succeeded the lookup of
  that identifier reports no row. Whenever \<open>DeleteProduct\<close> reports success, it has
  found the product and the storage delete of that product has succeeded, and
  \<open>GetProduct\<close> on the same identifier, run on the state the delete left, fails with
  the not-found code 404. The table storage is such an executor, and so is the table
  storage that refuses every delete, on which \<open>DeleteProduct\<close> never reports success.
\<close>

theorem Delete_then_Get_not_found:
  assumes "delete_removes_row dbTrx"
    and "DeleteProduct dbTrx db id' = (None, db')"
  shows "(\<exists>product rowsAff.
            FindProduct dbTrx db id' = Inr product \<and>
            ProductDelete dbTrx db product = (Inr rowsAff, db')) \<and>
         GetProduct dbTrx db' id' =
           Inl \<lparr>Message = ''Product not found'', Error = ErrNoRows, Code = StatusNotFound\<rparr>"
proof (cases "FindProduct dbTrx db id'")
  case (Inl err)
  with assms(2) show ?thesis
    by (simp add: DeleteProduct_def split: if_splits)
next
  case found: (Inr product)
  obtain r d where del: "ProductDelete dbTrx db product = (r, d)"
    by (meson surj_pair)
  show ?thesis
  proof (cases r)
    case (Inl err)
    with assms(2) found del show ?thesis
      by (simp add: DeleteProduct_def)
  next
    case (Inr rowsAff)
    with assms(2) found del have d: "d = db'"
      by (simp add: DeleteProduct_def)
    from assms(1) found have "ID product = id'"
      unfolding delete_removes_row_def by blast
    moreover from assms(1) del Inr d have "FindProduct dbTrx db' (ID product) = Inl ErrNoRows"
      unfolding delete_removes_row_def by blast
    ultimately have "FindProduct dbTrx db' id' = Inl ErrNoRows"
      by simp
    then have "GetProduct dbTrx db' id' =
           Inl \<lparr>Message = ''Product not found'', Error = ErrNoRows, Code = StatusNotFound\<rparr>"
      by (simp add: GetProduct_def)
    with found del Inr d show ?thesis by simp
  qed
qed

text \<open>
  The spec's example, deleting product 1 and then getting it; and the same delete
  where the storage refuses it: the failure is reported and the product is still there.
\<close>

theorem Delete_then_Get_not_found_witness:
  "DeleteProduct table_executor widget_table 1 = (None, empty_table\<lparr>next_id := 2\<rparr>) \<and>
   GetProduct table_executor (empty_table\<lparr>next_id := 2\<rparr>) 1 =
     Inl \<lparr>Message = ''Product not found'', Error = ErrNoRows, Code = 404\<rparr> \<and>
   DeleteProduct delete_refused widget_table 1 =
     (Some \<lparr>Message = ''Unable to delete product'', Error = ErrorsNew ''permission denied'',
            Code = 500\<rparr>, widget_table) \<and>
   GetProduct delete_refused widget_table 1 =
     Inr \<lparr>ID = 1, Product.Name = ''Widget'',
          Product.Description = \<lparr>String = [], Valid = False\<rparr>,
          Product.Price = \<lparr>value = 10, exp = 0\<rparr>\<rparr>"
proof -
  have h: "DeleteProduct table_executor widget_table 1 = (None, empty_table\<lparr>next_id := 2\<rparr>)"
    by (simp add: DeleteProduct_def table_executor_def table_Find_def table_Delete_def
          widget_table_def empty_table_def)
  have r: "DeleteProduct delete_refused widget_table 1 =
     (Some \<lparr>Message = ''Unable to delete product'', Error = ErrorsNew ''permission denied'',
            Code = 500\<rparr>, widget_table)"
    by (simp add: DeleteProduct_def delete_refused_def table_Find_def widget_table_def
          StatusInternalServerError_def)
  have g: "GetProduct delete_refused widget_table 1 =
     Inr \<lparr>ID = 1, Product.Name = ''Widget'',
          Product.Description = \<lparr>String = [], Valid = False\<rparr>,
          Product.Price = \<lparr>value = 10, exp = 0\<rparr>\<rparr>"
    by (simp add: GetProduct_def delete_refused_def table_Find_def widget_table_def)
  show ?thesis
    using h r g Delete_then_Get_not_found [OF table_delete_removes_row h]
    by (simp add: StatusNotFound_def)
qed

text \<open>
  C7. On an executor whose failing storage writes leave the persisted state as it was,
  every failing invocation of the five operations returns one service error, whose
  code is one of the three distinct codes 404, 400 and 500, and the persisted state a
  failing write operation returns is the state it was given. (The two read operations
  return no state: they only query.)
\<close>

theorem failure_leaves_state:
  assumes "failed_write_keeps_state dbTrx"
  shows "(GetProducts dbTrx db = Inl se1 \<longrightarrow> classified se1) \<and>
         (GetProduct dbTrx db id' = Inl se2 \<longrightarrow> classified se2) \<and>
         (CreateProduct dbTrx db body = (Inl se3, db3) \<longrightarrow> classified se3 \<and> db3 = db) \<and>
         (UpdateProduct dbTrx db id' body = (Inl se4, db4) \<longrightarrow> classified se4 \<and> db4 = db) \<and>
         (DeleteProduct dbTrx db id' = (Some se5, db5) \<longrightarrow> classified se5 \<and> db5 = db) \<and>
         StatusNotFound \<noteq> StatusBadRequest \<and>
         StatusNotFound \<noteq> StatusInternalServerError \<and>
         StatusBadRequest \<noteq> StatusInternalServerError"
  using read_failure [of dbTrx db se1 id' se2]
    CreateProduct_failure [OF assms, of db body se3 db3]
    UpdateProduct_failure [OF assms, of db id' body se4 db4]
    DeleteProduct_failure [OF assms, of db id' se5 db5]
  by (simp add: StatusNotFound_def StatusBadRequest_def StatusInternalServerError_def)

text \<open>
  On the unavailable table every operation fails with code 500 and the table stays;
  a delete of an identifier the table does not hold fails with 404.
\<close>

theorem failure_leaves_state_witness:
  "GetProducts table_executor unavailable_table =
     Inl \<lparr>Message = ''Unable to get products'', Error = ErrorsNew ''connection refused'',
          Code = 500\<rparr> \<and>
   GetProduct table_executor unavailable_table 1 =
     Inl \<lparr>Message = ''Unable to get product'', Error = ErrorsNew ''connection refused'',
          Code = 500\<rparr> \<and>
   CreateProduct table_executor unavailable_table
       \<lparr>ProductBody.Name = ''Widget'', ProductBody.Description = [],
        ProductBody.Price = 10\<rparr> =
     (Inl \<lparr>Message = ''Unable to create product'', Error = ErrorsNew ''connection refused'',
           Code = 500\<rparr>, unavailable_table) \<and>
   UpdateProduct table_executor unavailable_table 1
       \<lparr>ProductBody.Name = ''Widget'', ProductBody.Description = [],
        ProductBody.Price = 10\<rparr> =
     (Inl \<lparr>Message = ''Unable to get product'', Error = ErrorsNew ''connection refused'',
           Code = 500\<rparr>, unavailable_table) \<and>
   DeleteProduct table_executor widget_table 2 =
     (Some \<lparr>Message = ''Product not found'', Error = ErrNoRows, Code = 404\<rparr>, widget_table) \<and>
   classified \<lparr>Message = ''Unable to create product'',
               Error = ErrorsNew ''connection refused'', Code = 500\<rparr> \<and>
   classified \<lparr>Message = ''Product not found'', Error = ErrNoRows, Code = 404\<rparr>"
proof -
  have l: "GetProducts table_executor unavailable_table =
     Inl \<lparr>Message = ''Unable to get products'', Error = ErrorsNew ''connection refused'',
          Code = 500\<rparr>"
    by (simp add: GetProducts_def table_executor_def table_All_def unavailable_table_def
          StatusInternalServerError_def)
  have g: "GetProduct table_executor unavailable_table 1 =
     Inl \<lparr>Message = ''Unable to get product'', Error = ErrorsNew ''connection refused'',
          Code = 500\<rparr>"
    by (simp add: GetProduct_def table_executor_def table_Find_def unavailable_table_def
          StatusInternalServerError_def)
  have c: "CreateProduct table_executor unavailable_table
       \<lparr>ProductBody.Name = ''Widget'', ProductBody.Description = [],
        ProductBody.Price = 10\<rparr> =
     (Inl \<lparr>Message = ''Unable to create product'', Error = ErrorsNew ''connection refused'',
           Code = 500\<rparr>, unavailable_table)"
    by (simp add: CreateProduct_valid_price table_executor_def table_Insert_def
          unavailable_table_def StatusInternalServerError_def)
  have u: "UpdateProduct table_executor unavailable_table 1
       \<lparr>ProductBody.Name = ''Widget'', ProductBody.Description = [],
        ProductBody.Price = 10\<rparr> =
     (Inl \<lparr>Message = ''Unable to get product'', Error = ErrorsNew ''connection refused'',
           Code = 500\<rparr>, unavailable_table)"
    by (simp add: UpdateProduct_def table_executor_def table_Find_def unavailable_table_def
          StatusInternalServerError_def)
  have d: "DeleteProduct table_executor widget_table 2 =
     (Some \<lparr>Message = ''Product not found'', Error = ErrNoRows, Code = 404\<rparr>, widget_table)"
    by (simp add: DeleteProduct_def table_executor_def table_Find_def widget_table_def
          StatusNotFound_def)
  show ?thesis
    using l g c u d
      failure_leaves_state [OF table_failed_write_keeps_state, of unavailable_table
        "\<lparr>Message = ''Unable to get products'', Error = ErrorsNew ''connection refused'',
          Code = 500\<rparr>" 1
        "\<lparr>Message = ''Unable to get product'', Error = ErrorsNew ''connection refused'',
          Code = 500\<rparr>"
        "\<lparr>ProductBody.Name = ''Widget'', ProductBody.Description = [],
          ProductBody.Price = 10\<rparr>"
        "\<lparr>Message = ''Unable to create product'', Error = ErrorsNew ''connection refused'',
           Code = 500\<rparr>" unavailable_table]
      failure_leaves_state [OF table_failed_write_keeps_state, of widget_table
        undefined 2 undefined undefined undefined undefined undefined undefined
        "\<lparr>Message = ''Product not found'', Error = ErrNoRows, Code = 404\<rparr>" widget_table]
    by simp
qed

text \<open>
  C8. \<open>GetProducts\<close> returns the products the underlying fetch returns when the fetch
  succeeds, on a table all its rows; whenever the fetch fails, whatever the error, it
  fails with the internal-error code 500, and a failure of \<open>GetProducts\<close> has no other
  code.
\<close>

theorem GetProducts_result:
  "(ProductsAll dbTrx db = Inr products \<longrightarrow> GetProducts dbTrx db = Inr products) \<and>
   (ProductsAll dbTrx db = Inl err \<longrightarrow>
      GetProducts dbTrx db =
        Inl \<lparr>Message = ''Unable to get products'', Error = err, Code = 500\<rparr>) \<and>
   (GetProducts dbTrx db = Inl se \<longrightarrow> Code se = StatusInternalServerError) \<and>
   (unavailable t = None \<longrightarrow> GetProducts table_executor t = Inr (rows t))"
  by (auto simp: GetProducts_def StatusInternalServerError_def table_executor_def
        table_All_def split: sum.splits)

theorem GetProducts_result_witness:
  "GetProducts table_executor widget_table =
     Inr [\<lparr>ID = 1, Product.Name = ''Widget'',
           Product.Description = \<lparr>String = [], Valid = False\<rparr>,
           Product.Price = \<lparr>value = 10, exp = 0\<rparr>\<rparr>] \<and>
   ProductsAll table_executor unavailable_table = Inl (ErrorsNew ''connection refused'') \<and>
   GetProducts table_executor unavailable_table =
     Inl \<lparr>Message = ''Unable to get products'', Error = ErrorsNew ''connection refused'',
          Code = 500\<rparr>"
proof -
  have a: "ProductsAll table_executor unavailable_table =
             Inl (ErrorsNew ''connection refused'')"
    by (simp add: table_executor_def table_All_def unavailable_table_def)
  have b: "unavailable widget_table = None"
    by (simp add: widget_table_def)
  have c: "rows widget_table =
     [\<lparr>ID = 1, Product.Name = ''Widget'',
       Product.Description = \<lparr>String = [], Valid = False\<rparr>,
       Product.Price = \<lparr>value = 10, exp = 0\<rparr>\<rparr>]"
    by (simp add: widget_table_def)
  show ?thesis
    using a b c
      GetProducts_result [of table_executor unavailable_table "[]"
        "ErrorsNew ''connection refused''"
        "\<lparr>Message = ''Unable to get products'', Error = ErrorsNew ''connection refused'',
          Code = 500\<rparr>" widget_table]
    by simp
qed



text \<open>
  C10. For a non-negative price \<open>n\<close>, \<^verbatim>\<open>decimal.NewFromString\<close> of \<^verbatim>\<open>strconv.Itoa(n)\<close>
  succeeds, with the decimal of coefficient \<open>n\<close> and exponent 0. Hence no failure of
  \<open>CreateProduct\<close> or \<open>UpdateProduct\<close>, on any executor and for any body, carries the
  message of the branch for a malformed price, \<^verbatim>\<open>Invalid price format\<close>: the branch is
  unreachable.
\<close>

theorem price_parse_never_fails:
  "(0 \<le> ProductBody.Price body \<longrightarrow>
      NewFromString (Itoa (ProductBody.Price body)) =
        Inr \<lparr>value = ProductBody.Price body, exp = 0\<rparr>) \<and>
   (fst (CreateProduct dbTrx db body) = Inl se \<longrightarrow>
      Message se \<noteq> ''Invalid price format'') \<and>
   (fst (UpdateProduct dbTrx db id' body) = Inl se' \<longrightarrow>
      Message se' \<noteq> ''Invalid price format'')"
  using CreateProduct_no_conversion_failure [of dbTrx db body se]
    UpdateProduct_no_conversion_failure [of dbTrx db id' body se']
  by (auto simp: NewFromString_Itoa)

text \<open>
  The price 10 parses; with it, a create and an update on the unavailable table fail,
  with other messages.
\<close>

theorem price_parse_never_fails_witness:
  "(0::int) \<le> 10 \<and>
   NewFromString (Itoa 10) = Inr \<lparr>value = 10, exp = 0\<rparr> \<and>
   fst (CreateProduct table_executor unavailable_table
          \<lparr>ProductBody.Name = ''Widget'', ProductBody.Description = [],
           ProductBody.Price = 10\<rparr>) =
     Inl \<lparr>Message = ''Unable to create product'', Error = ErrorsNew ''connection refused'',
          Code = 500\<rparr> \<and>
   fst (UpdateProduct table_executor unavailable_table 1
          \<lparr>ProductBody.Name = ''Widget'', ProductBody.Description = [],
           ProductBody.Price = 10\<rparr>) =
     Inl \<lparr>Message = ''Unable to get product'', Error = ErrorsNew ''connection refused'',
          Code = 500\<rparr> \<and>
   ''Unable to create product'' \<noteq> ''Invalid price format'' \<and>
   ''Unable to get product'' \<noteq> ''Invalid price format''"
proof -
  have c: "fst (CreateProduct table_executor unavailable_table
          \<lparr>ProductBody.Name = ''Widget'', ProductBody.Description = [],
           ProductBody.Price = 10\<rparr>) =
     Inl \<lparr>Message = ''Unable to create product'', Error = ErrorsNew ''connection refused'',
          Code = 500\<rparr>"
    by (simp add: CreateProduct_valid_price table_executor_def table_Insert_def
          unavailable_table_def StatusInternalServerError_def)
  have u: "fst (UpdateProduct table_executor unavailable_table 1
          \<lparr>ProductBody.Name = ''Widget'', ProductBody.Description = [],
           ProductBody.Price = 10\<rparr>) =
     Inl \<lparr>Message = ''Unable to get product'', Error = ErrorsNew ''connection refused'',
          Code = 500\<rparr>"
    by (simp add: UpdateProduct_def table_executor_def table_Find_def unavailable_table_def
          StatusInternalServerError_def)
  show ?thesis
    using c u
      price_parse_never_fails [of "\<lparr>ProductBody.Name = ''Widget'',
         ProductBody.Description = [], ProductBody.Price = 10\<rparr>" table_executor
         unavailable_table
         "\<lparr>Message = ''Unable to create product'', Error = ErrorsNew ''connection refused'',
          Code = 500\<rparr>" 1
         "\<lparr>Message = ''Unable to get product'', Error = ErrorsNew ''connection refused'',
          Code = 500\<rparr>"]
    by simp
qed

end
